theory Spec2Isabelle
  imports Complex_Main "HOL-Library.Word" "HOL-Library.AList"
    "HOL-Library.Char_ord" "HOL-Library.List_Lexorder"
begin

unbundle bit_operations_syntax

section \<open>JavaScript values and operators used by the driver\<close>

text \<open>
  The driver (\<^verbatim>\<open>src/lib/index.js\<close>) works on JavaScript numbers. Pixel coordinates,
  sizes and page numbers are integers here (\<^typ>\<open>int\<close>), the bytes of the Node
  \<^verbatim>\<open>Buffer\<close> are \<^typ>\<open>8 word\<close>. A value that is read from the buffer or held in
  a working variable can also be \<^verbatim>\<open>undefined\<close> (a read outside the buffer) or
  \<^verbatim>\<open>null\<close> (the initial value of \<^verbatim>\<open>dxxByte\<close> in \<^verbatim>\<open>drawImage\<close>).
\<close>

type_synonym byte = "8 word"

datatype jsval = Null | Undefined | Byte byte

text \<open>\<^verbatim>\<open>ToInt32\<close>: the operands of \<^verbatim>\<open>|\<close>, \<^verbatim>\<open>&\<close>, \<^verbatim>\<open><<\<close>, \<^verbatim>\<open>>>\<close> are
  taken modulo \<open>2^32\<close> and read as signed 32-bit integers.\<close>

definition to_int32 :: "int \<Rightarrow> int" where
  "to_int32 k = signed_take_bit 31 k"

definition js_or :: "int \<Rightarrow> int \<Rightarrow> int" where
  "js_or a b = to_int32 a OR to_int32 b"

definition js_and :: "int \<Rightarrow> int \<Rightarrow> int" where
  "js_and a b = to_int32 a AND to_int32 b"

definition js_shr :: "int \<Rightarrow> nat \<Rightarrow> int" where
  "js_shr a n = drop_bit (n mod 32) (to_int32 a)"

text \<open>The working byte of \<^verbatim>\<open>drawPixels\<close> and \<^verbatim>\<open>drawImage\<close>. \<^verbatim>\<open>null\<close> and
  \<^verbatim>\<open>undefined\<close> are 0 under \<^verbatim>\<open>ToInt32\<close>; the mask \<^verbatim>\<open>0x01 << b\<close> has
  \<open>0 \<le> b < 8\<close>, so the 32-bit results of \<^verbatim>\<open>v | mask\<close> and \<^verbatim>\<open>v & ~mask\<close> stay
  inside a byte.\<close>

fun to_byte :: "jsval \<Rightarrow> byte" where
  "to_byte Null = 0"
| "to_byte Undefined = 0"
| "to_byte (Byte b) = b"

definition or_mask :: "jsval \<Rightarrow> byte \<Rightarrow> jsval" where
  "or_mask v m = Byte (to_byte v OR m)"

definition and_not_mask :: "jsval \<Rightarrow> byte \<Rightarrow> jsval" where
  "and_not_mask v m = Byte (to_byte v AND NOT m)"

text \<open>\<^verbatim>\<open>0x01 << (y - 8 * Math.floor(y / 8))\<close>\<close>

definition pixel_mask :: "int \<Rightarrow> int \<Rightarrow> byte" where
  "pixel_mask y page = push_bit (nat (y - 8 * page)) 1"

text \<open>Element access on a \<^verbatim>\<open>Buffer\<close> (a \<^verbatim>\<open>Uint8Array\<close>): a read outside the buffer is
  \<^verbatim>\<open>undefined\<close>, a write outside the buffer is ignored, a written value is converted
  to a byte.\<close>

definition buf_get :: "byte list \<Rightarrow> int \<Rightarrow> jsval" where
  "buf_get buf i = (if 0 \<le> i \<and> i < int (length buf) then Byte (buf ! nat i) else Undefined)"

definition buf_set :: "byte list \<Rightarrow> int \<Rightarrow> jsval \<Rightarrow> byte list" where
  "buf_set buf i v = (if 0 \<le> i \<and> i < int (length buf) then buf[nat i := to_byte v] else buf)"

text \<open>\<^verbatim>\<open>buffer.slice(start, end)\<close>: a negative index counts from the end of the buffer,
  and both indices are clamped to the buffer.\<close>

definition slice_index :: "nat \<Rightarrow> int \<Rightarrow> nat" where
  "slice_index n i = (if i < 0 then nat (max 0 (int n + i)) else min n (nat i))"

definition buf_slice :: "byte list \<Rightarrow> int \<Rightarrow> int \<Rightarrow> byte list" where
  "buf_slice buf s e =
     (let s' = slice_index (length buf) s; e' = slice_index (length buf) e
      in take (e' - s') (drop s' buf))"


section \<open>Constants (\<^verbatim>\<open>constants.js\<close>)\<close>

definition SET_COL_ADDR_LB :: int where "SET_COL_ADDR_LB = 0x00"
definition SET_COL_ADDR_HB :: int where "SET_COL_ADDR_HB = 0x10"
definition SET_PAGE_ADDRESS :: int where "SET_PAGE_ADDRESS = 0xB0"

section \<open>The display object\<close>

text \<open>
  \<^verbatim>\<open>this.Config\<close>: the geometry, the optional RAM column offset (absent unless the
  caller gives one: the constructor sets no default), the spacings (default 1) and the
  optional clip method installed by \<^verbatim>\<open>setClipped\<close>. The clip method receives
  \<^verbatim>\<open>null\<close> (\<open>None\<close>) for the axis that \<^verbatim>\<open>drawImage\<close> does not test.
\<close>

record config =
  displayColumns :: nat
  displayRows :: nat
  columnOffset :: "nat option"
  lineSpacing :: int
  letterSpacing :: int
  clippedMethod :: "(int option \<Rightarrow> int option \<Rightarrow> bool) option"

text \<open>
  \<^verbatim>\<open>this.dirtyBytes\<close> is an object of objects, \<open>page \<mapsto> (column \<mapsto> byte)\<close>; it is an
  association list here, updated in place as a property assignment does.
\<close>

type_synonym dirty = "(int \<times> (int \<times> jsval) list) list"

record display =
  Config :: config
  buffer :: "byte list"
  dirtyBytes :: dirty
  cursorx :: int
  cursory :: int

text \<open>The constructor, with the defaults it applies to the two spacings.\<close>

definition new_display :: "nat \<Rightarrow> nat \<Rightarrow> nat option \<Rightarrow> int option \<Rightarrow> int option \<Rightarrow> display" where
  "new_display cols rows off ls lts =
     \<lparr> Config = \<lparr> displayColumns = cols, displayRows = rows, columnOffset = off,
                  lineSpacing = (case ls of None \<Rightarrow> 1 | Some v \<Rightarrow> v),
                  letterSpacing = (case lts of None \<Rightarrow> 1 | Some v \<Rightarrow> v),
                  clippedMethod = None \<rparr>,
       buffer = replicate (cols * rows) 0,
       dirtyBytes = [],
       cursorx = 0,
       cursory = 0 \<rparr>"

definition clearBuffer :: "display \<Rightarrow> display" where
  "clearBuffer st = st\<lparr> buffer := map (\<lambda>_. 0) (buffer st) \<rparr>"


definition setClipped :: "(int option \<Rightarrow> int option \<Rightarrow> bool) \<Rightarrow> display \<Rightarrow> display" where
  "setClipped m st = st\<lparr> Config := (Config st)\<lparr> clippedMethod := Some m \<rparr> \<rparr>"

definition columns :: "display \<Rightarrow> int" where
  "columns st = int (displayColumns (Config st))"

definition rows :: "display \<Rightarrow> int" where
  "rows st = int (displayRows (Config st))"

text \<open>\<^verbatim>\<open>clipped(x, y)\<close>: an installed clip method decides alone; otherwise a coordinate
  that is not \<^verbatim>\<open>null\<close> is tested against the geometry.\<close>

definition clipped :: "display \<Rightarrow> int option \<Rightarrow> int option \<Rightarrow> bool" where
  "clipped st x y =
     (case clippedMethod (Config st) of
        Some m \<Rightarrow> m x y
      | None \<Rightarrow>
          (if x \<noteq> None \<and> (the x < 0 \<or> the x \<ge> columns st) then True
           else if y \<noteq> None \<and> (the y < 0 \<or> the y \<ge> rows st) then True
           else False))"

text \<open>\<^verbatim>\<open>this.dirtyBytes[page] = this.dirtyBytes[page] || {}; this.dirtyBytes[page][x] = v\<close>\<close>

definition dirty_columns :: "dirty \<Rightarrow> int \<Rightarrow> (int \<times> jsval) list" where
  "dirty_columns d page = (case map_of d page of None \<Rightarrow> [] | Some cs \<Rightarrow> cs)"

definition mark_dirty :: "int \<Rightarrow> int \<Rightarrow> jsval \<Rightarrow> dirty \<Rightarrow> dirty" where
  "mark_dirty page x v d = AList.update page (AList.update x v (dirty_columns d page)) d"

text \<open>The byte recorded in the dirty set for a page and a column, if any.\<close>

definition dirty_get :: "dirty \<Rightarrow> int \<Rightarrow> int \<Rightarrow> jsval option" where
  "dirty_get d page x = map_of (dirty_columns d page) x"

section \<open>drawPixels\<close>

text \<open>The colour of a pixel: the strings \<^verbatim>\<open>'BLACK'\<close> and \<^verbatim>\<open>'WHITE'\<close>, or a number.\<close>

datatype colour = BLACK | WHITE | Level int

definition is_off :: "colour \<Rightarrow> bool" where
  "is_off c = (c = BLACK \<or> c = Level 0)"

definition is_on :: "colour \<Rightarrow> bool" where
  "is_on c = (c = WHITE \<or> (case c of Level n \<Rightarrow> n > 0 | _ \<Rightarrow> False))"

type_synonym pixel = "int \<times> int \<times> colour"

text \<open>The body of the \<^verbatim>\<open>forEach\<close> callback of \<^verbatim>\<open>drawPixels\<close>, for one pixel.\<close>

definition drawPixel :: "display \<Rightarrow> pixel \<Rightarrow> display" where
  "drawPixel st p =
     (case p of (x, y, c) \<Rightarrow>
       if clipped st (Some x) (Some y) then st
       else
         let bufferPage = y div 8;
             pixelByte = pixel_mask y bufferPage;
             bufferOffset = x + columns st * bufferPage;
             bufferByte = buf_get (buffer st) bufferOffset;
             bufferByte = (if is_off c then and_not_mask bufferByte pixelByte else bufferByte);
             bufferByte = (if is_on c then or_mask bufferByte pixelByte else bufferByte)
         in if buf_get (buffer st) bufferOffset \<noteq> bufferByte
            then st\<lparr> buffer := buf_set (buffer st) bufferOffset bufferByte,
                     dirtyBytes := mark_dirty bufferPage x bufferByte (dirtyBytes st) \<rparr>
            else st)"

text \<open>\<^verbatim>\<open>drawPixels(pixels)\<close> on an array of pixels; a single pixel \<^verbatim>\<open>[x, y, color]\<close> is
  wrapped into a one-element array first.\<close>

definition drawPixels :: "display \<Rightarrow> pixel list \<Rightarrow> display" where
  "drawPixels st pixels = foldl drawPixel st pixels"


section \<open>drawLine\<close>

text \<open>\<^verbatim>\<open>Math.round\<close>: the nearest integer, a tie goes up.\<close>

definition js_round :: "rat \<Rightarrow> int" where
  "js_round x = \<lfloor>x + 1 / 2\<rfloor>"

text \<open>
  The \<^verbatim>\<open>while (true)\<close> loop of \<^verbatim>\<open>drawLine\<close>. It has no bound in the source, so it is
  a partial function: \<open>None\<close> stands for a loop that never reaches its \<^verbatim>\<open>break\<close>.
  The result is the array \<^verbatim>\<open>linePixels\<close> handed to \<^verbatim>\<open>drawPixels\<close>.
\<close>

partial_function (option) line_loop ::
  "int \<Rightarrow> int \<Rightarrow> int \<Rightarrow> int \<Rightarrow> int \<Rightarrow> int \<Rightarrow> int \<Rightarrow> int \<Rightarrow> rat \<Rightarrow> colour \<Rightarrow> pixel list
     \<Rightarrow> pixel list option" where
  "line_loop x0 y0 x1 y1 dx dy sx sy err color linePixels =
     (if x0 = x1 \<and> y0 = y1 then Some (linePixels @ [(x0, y0, color)])
      else
        let e2 = err;
            err' = (if e2 > - of_int dx then err - of_int dy else err);
            x0' = (if e2 > - of_int dx then x0 + sx else x0);
            err'' = (if e2 < of_int dy then err' + of_int dx else err');
            y0' = (if e2 < of_int dy then y0 + sy else y0)
        in line_loop x0' y0' x1 y1 dx dy sx sy err'' color (linePixels @ [(x0, y0, color)]))"

declare line_loop.simps [code]

definition linePixels :: "rat \<Rightarrow> rat \<Rightarrow> rat \<Rightarrow> rat \<Rightarrow> colour \<Rightarrow> pixel list option" where
  "linePixels x0 y0 x1 y1 color =
     (let x0 = js_round x0; y0 = js_round y0; x1 = js_round x1; y1 = js_round y1;
          dx = \<bar>x1 - x0\<bar>;
          sx = (if x0 < x1 then 1 else - 1);
          dy = \<bar>y1 - y0\<bar>;
          sy = (if y0 < y1 then 1 else - 1);
          err = (if dx > dy then of_int dx else - of_int dy) / 2
      in line_loop x0 y0 x1 y1 dx dy sx sy err color [])"

definition drawLine :: "display \<Rightarrow> rat \<Rightarrow> rat \<Rightarrow> rat \<Rightarrow> rat \<Rightarrow> colour \<Rightarrow> display option" where
  "drawLine st x0 y0 x1 y1 color =
     (case linePixels x0 y0 x1 y1 color of
        None \<Rightarrow> None
      | Some pixels \<Rightarrow> Some (drawPixels st pixels))"

section \<open>drawFillRect\<close>

text \<open>\<^verbatim>\<open>for (let i = x; i < x + w; i += 1) this.drawLine(i, y, i, y + h - 1, color)\<close>\<close>

fun drawFillRect_loop :: "display \<Rightarrow> int list \<Rightarrow> int \<Rightarrow> int \<Rightarrow> colour \<Rightarrow> display option" where
  "drawFillRect_loop st [] y h color = Some st"
| "drawFillRect_loop st (i # is) y h color =
     (case drawLine st (of_int i) (of_int y) (of_int i) (of_int (y + h - 1)) color of
        None \<Rightarrow> None
      | Some st' \<Rightarrow> drawFillRect_loop st' is y h color)"

definition drawFillRect :: "display \<Rightarrow> int \<Rightarrow> int \<Rightarrow> int \<Rightarrow> int \<Rightarrow> colour \<Rightarrow> display option" where
  "drawFillRect st x y w h color = drawFillRect_loop st [x .. x + w - 1] y h color"

section \<open>drawImage\<close>

text \<open>An image as \<^verbatim>\<open>pngparse\<close> and \<^verbatim>\<open>fontToImageMap\<close> produce it.\<close>

record image =
  width :: nat
  height :: nat
  channels :: nat
  data :: "byte list"








section \<open>fontToImageMap\<close>

text \<open>A font in the \<^verbatim>\<open>oled-js\<close> format: glyph size, the characters it has
  (\<^verbatim>\<open>lookup\<close>) and the packed glyph bytes (\<^verbatim>\<open>fontData\<close>).\<close>

record font =
  font_width :: nat
  font_height :: nat
  lookup :: "char list"
  fontData :: "byte list"


definition colPages :: "font \<Rightarrow> nat" where
  "colPages f = (font_height f + 7) div 8"

definition charBytes :: "font \<Rightarrow> nat" where
  "charBytes f = colPages f * font_width f"

definition padBits :: "font \<Rightarrow> nat" where
  "padBits f = (colPages f * 8) mod font_height f"

text \<open>\<^verbatim>\<open>if (!p && b >= 8 - padBits) { continue; }\<close>\<close>

definition skipped :: "font \<Rightarrow> nat \<Rightarrow> nat \<Rightarrow> bool" where
  "skipped f p b = (p = 0 \<and> int b \<ge> 8 - int (padBits f))"

text \<open>The (page, bit) combinations whose pixels are pushed, in the order of the two
  loops \<^verbatim>\<open>for (p ...) for (b ...)\<close>.\<close>

definition glyph_rows :: "font \<Rightarrow> (nat \<times> nat) list" where
  "glyph_rows f =
     concat (map (\<lambda>p. map (\<lambda>b. (p, b)) (filter (\<lambda>b. \<not> skipped f p b) [0..<8])) [0..<colPages f])"

text \<open>The innermost loop over the glyph's columns: \<^verbatim>\<open>cdata[c + p * font.width] & bitMask\<close>,
  where a read outside \<^verbatim>\<open>cdata\<close> is \<^verbatim>\<open>undefined\<close>.\<close>

definition glyph_row :: "font \<Rightarrow> bool \<Rightarrow> byte list \<Rightarrow> nat \<times> nat \<Rightarrow> byte list" where
  "glyph_row f transparent cdata pb =
     (case pb of (p, b) \<Rightarrow>
        concat (map (\<lambda>c.
          let pixelState = (if bit (to_byte (buf_get cdata (int (c + p * font_width f)))) b
                            then 1 else 0 :: byte)
          in if transparent then [pixelState, (if pixelState \<noteq> 0 then 0xff else 0x00)]
             else [pixelState]) [0..<font_width f]))"

definition glyph_image :: "font \<Rightarrow> bool \<Rightarrow> nat \<Rightarrow> image" where
  "glyph_image f transparent li =
     (let cdata = take (charBytes f) (drop (li * charBytes f) (fontData f));
          idata = concat (map (glyph_row f transparent cdata) (glyph_rows f))
      in \<lparr> width = font_width f, height = font_height f,
           channels = (if transparent then 2 else 1), data = idata \<rparr>)"


text \<open>The skip rule in the words of the specification (``skip \<open>bit\<close> on the first page
  if \<open>bit < 8 - padBits\<close>''), to be compared with \<^const>\<open>skipped\<close>.\<close>

definition spec_skipped :: "font \<Rightarrow> nat \<Rightarrow> nat \<Rightarrow> bool" where
  "spec_skipped f p b = (p = 0 \<and> int b < 8 - int (padBits f))"

text \<open>Two small fonts for concrete runs: two glyphs of 2 x 7 pixels, and one glyph of
  1 x 3 pixels.\<close>

definition sample_font :: font where
  "sample_font = \<lparr> font_width = 2, font_height = 7, lookup = ''AB'',
                    fontData = [0x01, 0x7F, 0x40, 0x22] \<rparr>"

definition tiny_font :: font where
  "tiny_font = \<lparr> font_width = 1, font_height = 3, lookup = ''A'', fontData = [0x07] \<rparr>"

section \<open>drawString\<close>









section \<open>sendBuffer and updateDisplay\<close>

text \<open>The transport is the caller's: the model records the calls made to
  \<^verbatim>\<open>sendCommand\<close> and \<^verbatim>\<open>sendData\<close>, in order.\<close>

datatype transport_call = SendCommand "int list" | SendData "byte list"

text \<open>The loop of \<^verbatim>\<open>sendBuffer\<close>: \<^verbatim>\<open>for (let y = 0; y < this.Config.displayRows / 8; y++)\<close>,
  with the page command counted up by \<^verbatim>\<open>set_page_address += 1\<close>.\<close>

function sendBuffer_loop ::
  "display \<Rightarrow> int \<Rightarrow> int \<Rightarrow> nat \<Rightarrow> int \<Rightarrow> transport_call list \<Rightarrow> transport_call list \<times> display" where
  "sendBuffer_loop st set_col_low_bits set_col_high_bits y set_page_address calls =
     (if 8 * y < displayRows (Config st) then
        let calls1 = calls @ [SendCommand [set_page_address, set_col_low_bits, set_col_high_bits]];
            offset = int y * columns st;
            pageBuffer = buf_slice (buffer st) offset (offset + columns st);
            calls2 = calls1 @ [SendData pageBuffer]
        in sendBuffer_loop st set_col_low_bits set_col_high_bits (y + 1) (set_page_address + 1) calls2
      else (calls, st))"
  by pat_completeness auto
termination
  by (relation "measure (\<lambda>(st, lo, hi, y, spa, calls). displayRows (Config st) - 8 * y)") auto

declare sendBuffer_loop.simps [simp del]

text \<open>An absent \<^verbatim>\<open>columnOffset\<close> is \<^verbatim>\<open>undefined\<close>, which is 0 under \<^verbatim>\<open>|\<close>.\<close>

definition sendBuffer :: "display \<Rightarrow> transport_call list \<times> display" where
  "sendBuffer st =
     (let set_page_address = js_or SET_PAGE_ADDRESS 0x00;
          set_col_low_bits = js_or SET_COL_ADDR_LB
            (case columnOffset (Config st) of None \<Rightarrow> 0 | Some off \<Rightarrow> int off);
          set_col_high_bits = js_or SET_COL_ADDR_HB 0x00
      in sendBuffer_loop st set_col_low_bits set_col_high_bits 0 set_page_address [])"

text \<open>The keys of \<^verbatim>\<open>dirtyBytes\<close> are strings, and \<^verbatim>\<open>pages.sort()\<close> orders them as
  strings: the decimal numeral of the page number.\<close>

fun nat_string :: "nat \<Rightarrow> string" where
  "nat_string n =
     (if n < 10 then [char_of (48 + n)]
      else nat_string (n div 10) @ [char_of (48 + n mod 10)])"

declare nat_string.simps [simp del]

definition int_string :: "int \<Rightarrow> string" where
  "int_string i = (if i < 0 then CHR ''-'' # nat_string (nat (- i)) else nat_string (nat i))"

datatype js_error = TypeError

text \<open>\<^verbatim>\<open>minx + this.Config.columnOffset\<close> is \<^verbatim>\<open>NaN\<close> (\<open>None\<close>) when the offset is absent,
  and \<^verbatim>\<open>NaN & 0x0F\<close> is 0.\<close>

definition js_and_nan :: "int option \<Rightarrow> int \<Rightarrow> int" where
  "js_and_nan a b = js_and (case a of None \<Rightarrow> 0 | Some k \<Rightarrow> k) b"

text \<open>The address header and the data of one dirty page with the touched columns
  \<open>columns\<close> (not empty).\<close>

definition page_calls :: "display \<Rightarrow> int \<Rightarrow> int list \<Rightarrow> transport_call list" where
  "page_calls st page cols =
     (let minx = Min (set cols);
          maxx = Max (set cols);
          columnAddr = map_option (\<lambda>off. minx + int off) (columnOffset (Config st));
          set_page_address = js_or SET_PAGE_ADDRESS page;
          set_col_low_bits = js_or SET_COL_ADDR_LB (js_and_nan columnAddr 0x0F);
          set_col_high_bits = js_or SET_COL_ADDR_HB (js_shr (js_and_nan columnAddr 0xF0) 4);
          offset = page * columns st + minx;
          pageBuffer = buf_slice (buffer st) offset (offset + (maxx - minx) + 1)
      in [SendCommand [set_page_address, set_col_low_bits, set_col_high_bits],
          SendData pageBuffer])"


text \<open>The loop of \<^verbatim>\<open>updateDisplay\<close> over the sorted page keys. \<^verbatim>\<open>Object.keys\<close> of a
  page that is no longer in \<^verbatim>\<open>dirtyBytes\<close> would throw.\<close>

fun updateDisplay_loop ::
  "display \<Rightarrow> int list \<Rightarrow> transport_call list \<Rightarrow> js_error + transport_call list \<times> display" where
  "updateDisplay_loop st [] calls = Inr (calls, st)"
| "updateDisplay_loop st (page # pages) calls =
     (case map_of (dirtyBytes st) page of
        None \<Rightarrow> Inl TypeError
      | Some cs \<Rightarrow>
          let cols = map fst cs;
              calls' = (if length cols \<noteq> 0 then calls @ page_calls st page cols else calls)
          in updateDisplay_loop (st\<lparr> dirtyBytes := AList.delete page (dirtyBytes st) \<rparr>) pages calls')"

definition updateDisplay :: "display \<Rightarrow> js_error + transport_call list \<times> display" where
  "updateDisplay st =
     (let pages = sort_key int_string (map fst (dirtyBytes st))
      in if length pages = 0 then Inr ([], st)
         else updateDisplay_loop st pages [])"


text \<open>Telling the calls of \<^verbatim>\<open>sendCommand\<close> from those of \<^verbatim>\<open>sendData\<close>.\<close>

definition is_command :: "transport_call \<Rightarrow> bool" where
  "is_command c = (case c of SendCommand _ \<Rightarrow> True | SendData _ \<Rightarrow> False)"

section \<open>One pixel\<close>

lemma dirty_get_mark_dirty:
  "dirty_get (mark_dirty p x v d) p' x' = (if p' = p \<and> x' = x then Some v else dirty_get d p' x')"
  by (simp add: dirty_get_def mark_dirty_def dirty_columns_def update_conv')

lemma offset_in_buffer:
  assumes "0 \<le> x" "x < int c" "0 \<le> y" "y < int r"
  shows "0 \<le> x + int c * (y div 8)" and "x + int c * (y div 8) < int (c * r)"
proof -
  have d: "0 \<le> y div 8" "y div 8 \<le> int r - 1" using assms by auto
  then have "int c * (y div 8) \<le> int c * (int r - 1)"
    by (intro mult_left_mono) auto
  then show "x + int c * (y div 8) < int (c * r)"
    using assms by (simp add: algebra_simps)
  show "0 \<le> x + int c * (y div 8)" using assms d by simp
qed

lemma pixel_mask_mod: "pixel_mask y (y div 8) = push_bit (nat (y mod 8)) 1"
  by (simp add: pixel_mask_def minus_mult_div_eq_mod)

lemma bit_or_pixel_mask:
  "bit (b OR pixel_mask y (y div 8)) n = (n = nat (y mod 8) \<or> bit b n)" for b :: byte
proof -
  have "nat (y mod 8) < 8" by simp
  then show ?thesis
    unfolding pixel_mask_mod
    by (auto simp add: bit_or_iff bit_push_bit_iff bit_1_iff bit_exp_iff)
qed

lemma bit_and_not_pixel_mask:
  "bit (b AND NOT (pixel_mask y (y div 8))) n = (n \<noteq> nat (y mod 8) \<and> bit b n)" for b :: byte
proof -
  have "nat (y mod 8) < 8" by simp
  then show ?thesis
    unfolding pixel_mask_mod
    by (auto simp add: bit_and_iff bit_not_iff bit_push_bit_iff bit_1_iff bit_exp_iff dest: bit_imp_le_length)
qed

lemma drawPixel_unclipped:
  assumes nc: "\<not> clipped st (Some x) (Some y)"
    and r: "0 \<le> x + columns st * (y div 8)" "x + columns st * (y div 8) < int (length (buffer st))"
    and c: "is_on c \<or> is_off c"
  defines "off \<equiv> nat (x + columns st * (y div 8))"
  defines "old \<equiv> buffer st ! off"
  defines "new \<equiv> (if is_on c then old OR pixel_mask y (y div 8)
                    else old AND NOT (pixel_mask y (y div 8)))"
  shows "drawPixel st (x, y, c) =
      (if new \<noteq> old
       then st\<lparr> buffer := (buffer st)[off := new],
                dirtyBytes := mark_dirty (y div 8) x (Byte new) (dirtyBytes st) \<rparr>
       else st)"
proof -
  have onoff: "is_on c \<longleftrightarrow> \<not> is_off c"
    using c by (cases c) (auto simp: is_on_def is_off_def)
  have get: "buf_get (buffer st) (x + columns st * (y div 8)) = Byte old"
    using r by (simp add: buf_get_def old_def off_def)
  have set: "buf_set (buffer st) (x + columns st * (y div 8)) (Byte b) = (buffer st)[off := b]" for b
    using r by (simp add: buf_set_def off_def)
  show ?thesis
  proof (cases "is_on c")
    case True
    then show ?thesis
      using nc onoff by (simp add: drawPixel_def Let_def get set or_mask_def new_def)
  next
    case False
    then show ?thesis
      using nc onoff by (simp add: drawPixel_def Let_def get set and_not_mask_def new_def)
  qed
qed

text \<open>
  C2. For a pixel inside the display that the clip check lets through (it always does when
  no clip method is installed), \<^verbatim>\<open>drawPixels\<close> with an On colour sets bit \<open>y mod 8\<close> of the
  byte at offset \<open>x + displayColumns * (y div 8)\<close>, and with an Off colour clears it. The
  other bits of that byte and the other bytes of the buffer keep their values. The dirty
  set gets the entry (page, x) \<open>\<mapsto>\<close> new byte when the new byte differs from the stored
  one, and is left as it is otherwise.
\<close>

theorem drawPixels_sets_one_bit:
  assumes wf: "length (buffer st) = displayColumns (Config st) * displayRows (Config st)"
    and x: "0 \<le> x" "x < columns st"
    and y: "0 \<le> y" "y < rows st"
    and nc: "\<not> clipped st (Some x) (Some y)"
    and c: "is_on c \<or> is_off c"
  shows "let st' = drawPixels st [(x, y, c)];
             off = nat (x + columns st * (y div 8));
             old = buffer st ! off;
             new = buffer st' ! off
         in off < length (buffer st) \<and>
            length (buffer st') = length (buffer st) \<and>
            (\<forall>n. bit new n = (if n = nat (y mod 8) then is_on c else bit old n)) \<and>
            (\<forall>i. i \<noteq> off \<longrightarrow> buffer st' ! i = buffer st ! i) \<and>
            (if new \<noteq> old
             then \<forall>p' x'. dirty_get (dirtyBytes st') p' x' =
                    (if p' = y div 8 \<and> x' = x then Some (Byte new)
                     else dirty_get (dirtyBytes st) p' x')
             else dirtyBytes st' = dirtyBytes st)"
proof -
  define off where "off = nat (x + columns st * (y div 8))"
  define old where "old = buffer st ! off"
  define new where "new = (if is_on c then old OR pixel_mask y (y div 8)
                           else old AND NOT (pixel_mask y (y div 8)))"
  define st' where "st' = drawPixels st [(x, y, c)]"
  have r: "0 \<le> x + columns st * (y div 8)" "x + columns st * (y div 8) < int (length (buffer st))"
    using offset_in_buffer [of x "displayColumns (Config st)" y "displayRows (Config st)"] x y wf
    by (simp_all add: columns_def rows_def)
  then have off: "off < length (buffer st)" by (simp add: off_def)
  have bits: "bit new n = (if n = nat (y mod 8) then is_on c else bit old n)" for n
    by (simp add: new_def bit_or_pixel_mask bit_and_not_pixel_mask)
  have st': "st' = (if new \<noteq> old
       then st\<lparr> buffer := (buffer st)[off := new],
                dirtyBytes := mark_dirty (y div 8) x (Byte new) (dirtyBytes st) \<rparr>
       else st)"
    unfolding st'_def drawPixels_def new_def old_def off_def
    using drawPixel_unclipped [OF nc r c] by simp
  have n: "buffer st' ! off = new"
    using off by (simp add: st' old_def)
  have len: "length (buffer st') = length (buffer st)"
    by (simp add: st')
  have others: "i \<noteq> off \<Longrightarrow> buffer st' ! i = buffer st ! i" for i
    by (simp add: st')
  have dirty: "if new \<noteq> old
             then \<forall>p' x'. dirty_get (dirtyBytes st') p' x' =
                    (if p' = y div 8 \<and> x' = x then Some (Byte new)
                     else dirty_get (dirtyBytes st) p' x')
             else dirtyBytes st' = dirtyBytes st"
    by (simp add: st' dirty_get_mark_dirty)
  show ?thesis
    unfolding Let_def st'_def [symmetric] off_def [symmetric] old_def [symmetric] n
    using off len bits others dirty by blast
qed

theorem drawPixels_sets_one_bit_witness:
  "buffer (drawPixels (new_display 16 8 None None None) [(1, 3, WHITE)]) ! 1 = 8 \<and>
   dirty_get (dirtyBytes (drawPixels (new_display 16 8 None None None) [(1, 3, WHITE)])) 0 1
     = Some (Byte 8)"
  using drawPixels_sets_one_bit [of "new_display 16 8 None None None" 1 3 WHITE]
  by (simp add: drawPixels_def drawPixel_def new_display_def clipped_def columns_def rows_def
      pixel_mask_def buf_get_def buf_set_def or_mask_def and_not_mask_def is_on_def is_off_def
      mark_dirty_def dirty_columns_def dirty_get_def Let_def)

lemma buf_set_length [simp]: "length (buf_set buf i v) = length buf"
  by (simp add: buf_set_def)

lemma drawPixel_frame [simp]:
  "Config (drawPixel st px) = Config st"
  "length (buffer (drawPixel st px)) = length (buffer st)"
  "cursorx (drawPixel st px) = cursorx st"
  "cursory (drawPixel st px) = cursory st"
  by (simp_all add: drawPixel_def Let_def split: prod.split)

lemma drawPixels_frame [simp]:
  "Config (drawPixels st pixels) = Config st"
  "length (buffer (drawPixels st pixels)) = length (buffer st)"
  "cursorx (drawPixels st pixels) = cursorx st"
  "cursory (drawPixels st pixels) = cursory st"
  unfolding drawPixels_def by (induction pixels arbitrary: st) simp_all

section \<open>The loop of drawLine ends\<close>





section \<open>sendBuffer only reads the display\<close>

lemma sendBuffer_loop_state:
  "snd (sendBuffer_loop st lo hi y spa calls) = st"
proof (induction st lo hi y spa calls rule: sendBuffer_loop.induct)
  case (1 st lo hi y spa calls)
  show ?case
    using 1 by (subst sendBuffer_loop.simps) (simp add: Let_def)
qed

lemma sendBuffer_state: "snd (sendBuffer st) = st"
  by (simp add: sendBuffer_def sendBuffer_loop_state)

text \<open>
  C9. \<^verbatim>\<open>sendBuffer\<close> only reads the display: the buffer, the dirty set and the cursor
  are the same after it as before, so the dirty entries are still pending and a later
  \<^verbatim>\<open>updateDisplay\<close> sends what it would have sent without the \<^verbatim>\<open>sendBuffer\<close>.
\<close>

theorem sendBuffer_reads_only:
  "buffer (snd (sendBuffer st)) = buffer st \<and>
   dirtyBytes (snd (sendBuffer st)) = dirtyBytes st \<and>
   cursorx (snd (sendBuffer st)) = cursorx st \<and>
   cursory (snd (sendBuffer st)) = cursory st \<and>
   updateDisplay (snd (sendBuffer st)) = updateDisplay st"
  by (simp add: sendBuffer_state)

section \<open>updateDisplay right after sendBuffer\<close>

text \<open>
  C8, as stated, fails: a pixel drawn before \<^verbatim>\<open>sendBuffer\<close> is still in the dirty set
  after it, and \<^verbatim>\<open>updateDisplay\<close> then makes two transport calls for it.
\<close>

theorem updateDisplay_after_sendBuffer_counterexample:
  "map_sum id fst (updateDisplay (snd (sendBuffer
      (drawPixels (new_display 16 8 (Some 2) None None) [(0, 0, WHITE)]))))
   = Inr [SendCommand [0xB0, 0x02, 0x10], SendData [1]]"
  unfolding sendBuffer_state by code_simp

text \<open>
  C8, amended. When the dirty set is empty before \<^verbatim>\<open>sendBuffer\<close> (as it is on a new
  display and after each \<^verbatim>\<open>updateDisplay\<close>), \<^verbatim>\<open>updateDisplay\<close> called right after
  \<^verbatim>\<open>sendBuffer\<close> makes no transport call and leaves the display as it is.
\<close>

theorem updateDisplay_after_sendBuffer:
  "dirtyBytes st = [] \<Longrightarrow> updateDisplay (snd (sendBuffer st)) = Inr ([], st)"
  by (simp add: sendBuffer_state updateDisplay_def)

theorem updateDisplay_after_sendBuffer_witness:
  "dirtyBytes (new_display 128 64 (Some 2) None None) = [] \<and>
   updateDisplay (snd (sendBuffer (new_display 128 64 (Some 2) None None)))
     = Inr ([], new_display 128 64 (Some 2) None None)"
  using updateDisplay_after_sendBuffer [of "new_display 128 64 (Some 2) None None"]
  by (simp add: new_display_def)

section \<open>The address headers of sendBuffer\<close>

lemma sendBuffer_loop_calls:
  "fst (sendBuffer_loop st lo hi y spa calls) =
     calls @ concat (map (\<lambda>k. [SendCommand [spa + int (k - y), lo, hi],
                                SendData (buf_slice (buffer st) (int k * columns st)
                                            (int k * columns st + columns st))])
                      [y ..< (displayRows (Config st) + 7) div 8])"
proof (induction st lo hi y spa calls rule: sendBuffer_loop.induct)
  case (1 st lo hi y spa calls)
  show ?case
  proof (cases "8 * y < displayRows (Config st)")
    case True
    then have lt: "y < (displayRows (Config st) + 7) div 8" by simp
    have shift: "map (\<lambda>k. [SendCommand [spa + 1 + int (k - Suc y), lo, hi],
                                SendData (buf_slice (buffer st) (int k * columns st)
                                            (int k * columns st + columns st))])
                      [Suc y ..< (displayRows (Config st) + 7) div 8]
         = map (\<lambda>k. [SendCommand [spa + int (k - y), lo, hi],
                                SendData (buf_slice (buffer st) (int k * columns st)
                                            (int k * columns st + columns st))])
                      [Suc y ..< (displayRows (Config st) + 7) div 8]"
      by (rule map_cong) (auto simp: Suc_diff_Suc)
    show ?thesis
      using True lt 1 [OF True refl refl refl refl] shift
      by (subst sendBuffer_loop.simps) (simp add: Let_def upt_conv_Cons)
  next
    case False
    then have "\<not> y < (displayRows (Config st) + 7) div 8" by simp
    with False show ?thesis
      by (subst sendBuffer_loop.simps) simp
  qed
qed

lemma sendBuffer_calls:
  "fst (sendBuffer st) =
     concat (map (\<lambda>k. [SendCommand [0xB0 + int k,
                           js_or 0 (case columnOffset (Config st) of None \<Rightarrow> 0 | Some off \<Rightarrow> int off),
                           0x10],
                        SendData (buf_slice (buffer st) (int k * columns st)
                                    (int k * columns st + columns st))])
              [0 ..< (displayRows (Config st) + 7) div 8])"
  by (simp add: sendBuffer_def sendBuffer_loop_calls Let_def js_or_def to_int32_def
      SET_PAGE_ADDRESS_def SET_COL_ADDR_LB_def SET_COL_ADDR_HB_def)

text \<open>
  C5 at a column offset of 34 (a 64 x 48 panel centred in the 132 columns of the
  controller's RAM): the first column command carries the whole offset, \<open>0x22\<close>, and the
  second is always \<open>0x10\<close>, where the low and the high nibble of 34 would give \<open>0x02\<close>
  and \<open>0x12\<close>.
\<close>

theorem sendBuffer_offset_34:
  "filter is_command (fst (sendBuffer (new_display 64 48 (Some 34) None None))) =
     [SendCommand [0xB0, 0x22, 0x10], SendCommand [0xB1, 0x22, 0x10],
      SendCommand [0xB2, 0x22, 0x10], SendCommand [0xB3, 0x22, 0x10],
      SendCommand [0xB4, 0x22, 0x10], SendCommand [0xB5, 0x22, 0x10]]"
proof -
  have pages: "[0..<6] = [0, 1, 2, 3, 4, 5::nat]" by code_simp
  show ?thesis
    by (simp add: sendBuffer_calls new_display_def is_command_def pages js_or_def to_int32_def)
qed

section \<open>drawFillRect with an empty extent\<close>

lemma drawFillRect_no_width:
  "w \<le> 0 \<Longrightarrow> drawFillRect st x y w h color = Some st"
  by (simp add: drawFillRect_def)

text \<open>
  C6 at \<^verbatim>\<open>drawFillRect(0, 5, 1, 0, 1)\<close> on a new 128 x 64 display: the height is 0, and
  the line from row 5 to row 4 sets two pixels of column 0, so byte 0 becomes \<open>0x30\<close> and
  is marked dirty.
\<close>

theorem drawFillRect_zero_height:
  "map_option (\<lambda>st. buffer st ! 0)
     (drawFillRect (new_display 128 64 (Some 2) None None) 0 5 1 0 (Level 1)) = Some 0x30 \<and>
   map_option dirtyBytes
     (drawFillRect (new_display 128 64 (Some 2) None None) 0 5 1 0 (Level 1))
     = Some [(0, [(0, Byte 0x30)])]"
proof -
  have l: "linePixels 0 5 0 4 (Level 1) = Some [(0, 5, Level 1), (0, 4, Level 1)]"
    by code_simp
  have r: "drawFillRect st 0 5 1 0 (Level 1)
      = Some (drawPixels st [(0, 5, Level 1), (0, 4, Level 1)])" for st
    using l by (simp add: drawFillRect_def drawLine_def)
  show ?thesis
    unfolding r
    by (simp add: drawPixels_def drawPixel_def new_display_def clipped_def columns_def rows_def
      pixel_mask_def buf_get_def buf_set_def or_mask_def and_not_mask_def is_on_def is_off_def
      mark_dirty_def dirty_columns_def Let_def)
qed

section \<open>The transfer of a dirty page\<close>






lemma page_calls_dirtyBytes [simp]:
  "page_calls (st\<lparr> dirtyBytes := d \<rparr>) page cols = page_calls st page cols"
  by (simp add: page_calls_def columns_def)






section \<open>The rows of a glyph image\<close>

text \<open>
  C3, as stated, fails. With a glyph height of 7 there is one pad bit; bit 0 of page 0
  satisfies \<open>bit < 8 - padBits\<close> and is not skipped (the rows of the glyph image are the
  bits 0 to 6, bit 7 is dropped). And with a glyph height of 3 the glyph image gets 6 rows,
  not 3.
\<close>

theorem fontToImageMap_skip_counterexample:
  "spec_skipped sample_font 0 0 \<and> \<not> skipped sample_font 0 0 \<and>
   data (glyph_image sample_font False 0) = [1, 1, 0, 1, 0, 1, 0, 1, 0, 1, 0, 1, 0, 1] \<and>
   length (glyph_rows tiny_font) = 6 \<and> font_height tiny_font = 3"
  by code_simp

lemma set_glyph_rows:
  "set (glyph_rows f) = {(p, b). p < colPages f \<and> b < 8 \<and> \<not> skipped f p b}"
  by (auto simp add: glyph_rows_def)

lemma length_filter_less: "length (filter (\<lambda>b. b < k) [0..<m]) = min k m"
  by (induction m) auto

lemma length_concat_const:
  "(\<And>x. x \<in> set xs \<Longrightarrow> length (g x) = k) \<Longrightarrow> length (concat (map g xs)) = length xs * k"
  by (induction xs) auto

lemma padBits_eq:
  assumes "5 \<le> font_height f"
  shows "padBits f = colPages f * 8 - font_height f" and "padBits f \<le> 7" and "1 \<le> colPages f"
    and "font_height f \<le> colPages f * 8"
proof -
  let ?h = "font_height f"
  have "?h \<le> (?h + 7) div 8 * 8 \<and> (?h + 7) div 8 * 8 < 2 * ?h"
    using assms by presburger
  then have a: "?h \<le> colPages f * 8" "colPages f * 8 < 2 * ?h"
    by (simp_all add: colPages_def)
  then have "(colPages f * 8) mod ?h = colPages f * 8 - ?h"
    by (metis (no_types, lifting) add_diff_cancel_left' le_add_diff_inverse less_diff_conv2 mod_add_self1 mod_less mult_2)
  then show "padBits f = colPages f * 8 - font_height f" by (simp add: padBits_def)
  then show "padBits f \<le> 7" by (simp add: colPages_def)
  show "1 \<le> colPages f" using assms by (simp add: colPages_def)
  show "font_height f \<le> colPages f * 8" by (rule a)
qed

lemma length_glyph_rows:
  assumes "5 \<le> font_height f"
  shows "length (glyph_rows f) = font_height f"
proof -
  note pb = padBits_eq [OF assms]
  obtain n where n: "colPages f = Suc n" using pb(3) by (cases "colPages f") auto
  have first: "filter (\<lambda>b. \<not> skipped f 0 b) [0..<8] = filter (\<lambda>b. b < 8 - padBits f) [0..<8]"
    using pb(2) by (intro filter_cong) (auto simp add: skipped_def)
  have rest: "map (\<lambda>p. map (\<lambda>b. (p, b)) (filter (\<lambda>b. \<not> skipped f p b) [0..<8])) [Suc 0..<Suc n]
            = map (\<lambda>p. map (\<lambda>b. (p, b)) [0..<8]) [Suc 0..<Suc n]"
    by (intro map_cong) (auto simp add: skipped_def)
  have "length (glyph_rows f) = (8 - padBits f) + n * 8"
    unfolding glyph_rows_def n upt_conv_Cons [OF zero_less_Suc]
    by (simp add: first rest length_filter_less length_concat_const del: upt_Suc)
  then show ?thesis using pb n by arith
qed

lemma length_glyph_row:
  "length (glyph_row f t cdata pb) = font_width f * (if t then 2 else 1)"
  by (cases pb) (simp add: glyph_row_def length_concat_const Let_def)

lemma length_glyph_data:
  "length (data (glyph_image f t li)) = length (glyph_rows f) * (font_width f * (if t then 2 else 1))"
  by (simp add: glyph_image_def Let_def length_concat_const length_glyph_row)

text \<open>
  C3, amended. For each glyph, \<^verbatim>\<open>fontToImageMap\<close> goes through the pages \<open>p\<close> in
  \<open>[0, pagesPerGlyph)\<close> and the bits \<open>b\<close> in \<open>[0, 8)\<close> and skips (p, b) exactly when
  \<open>p = 0\<close> and \<open>b \<ge> 8 - padBits\<close>, so rows are dropped from the first page only. When the
  glyph height is at least 5, the glyph image has exactly \<open>height\<close> rows of \<open>width\<close>
  pixels with \<open>channels\<close> bytes each.
\<close>

theorem fontToImageMap_rows:
  "(p < colPages f \<and> b < 8 \<longrightarrow>
      ((p, b) \<notin> set (glyph_rows f)) = (p = 0 \<and> 8 - int (padBits f) \<le> int b)) \<and>
   (5 \<le> font_height f \<longrightarrow>
      length (glyph_rows f) = font_height f \<and>
      length (data (glyph_image f transparent li))
        = font_height f * (font_width f * channels (glyph_image f transparent li)))"
proof -
  have "channels (glyph_image f transparent li) = (if transparent then 2 else 1)"
    by (simp add: glyph_image_def Let_def)
  then show ?thesis
    by (simp add: set_glyph_rows skipped_def length_glyph_rows length_glyph_data)
qed

theorem fontToImageMap_rows_witness:
  "(0::nat) < colPages sample_font \<and> 5 \<le> font_height sample_font \<and>
   (0, 7) \<notin> set (glyph_rows sample_font) \<and> (0, 6) \<in> set (glyph_rows sample_font) \<and>
   length (glyph_rows sample_font) = 7 \<and> length (data (glyph_image sample_font True 1)) = 28"
  using fontToImageMap_rows [of 0 sample_font 7 True 1] fontToImageMap_rows [of 0 sample_font 6 True 1]
  by (simp add: sample_font_def colPages_def padBits_def glyph_image_def)

section \<open>Word wrap in drawString\<close>




end
